theory Spec2Isabelle
  imports Complex_Main
begin

section \<open>Python strings and lists\<close>

text \<open>
  A Python \<open>str\<close> is modelled as a \<open>string\<close> (a list of characters), a Python list as a
  HOL list. Only operations that act on whole characters are used by the code
  (\<open>startswith\<close>, slicing off an ASCII prefix, \<open>join\<close>, \<open>split\<close>, list membership and
  \<open>index\<close>).
\<close>

datatype error = ValueError | IndexError | EOFError | SystemExit string | KeyError string | ZeroDivisionError

text \<open>\<open>sep.join(xs)\<close>\<close>

fun join :: "string \<Rightarrow> string list \<Rightarrow> string" where
  "join sep [] = []"
| "join sep [x] = x"
| "join sep (x # y # ys) = x @ sep @ join sep (y # ys)"

text \<open>\<open>s.startswith(p)\<close>\<close>

definition startswith :: "string \<Rightarrow> string \<Rightarrow> bool" where
  "startswith s p = (take (length p) s = p)"

section \<open>\<open>add_srl_tags.py\<close>: \<open>make_srl_string\<close>\<close>

text \<open>
  The chunk that is open when a tag other than \<open>I-\<close> arrives is closed: it is appended to
  \<open>frame\<close> in brackets and \<open>chunk\<close> is emptied (\<open>if chunk: ...\<close>).
\<close>

definition flush_chunk :: "string list \<Rightarrow> string list \<Rightarrow> string list \<times> string list" where
  "flush_chunk frame chunk =
     (if chunk \<noteq> [] then (frame @ [''['' @ join '' '' chunk @ '']''], []) else (frame, chunk))"

text \<open>The body of \<open>for (token, tag) in zip(words, tags)\<close>, on the state \<open>(frame, chunk)\<close>.\<close>

fun srl_loop :: "(string \<times> string) list \<Rightarrow> string list \<Rightarrow> string list \<Rightarrow> string list \<times> string list" where
  "srl_loop [] frame chunk = (frame, chunk)"
| "srl_loop ((token, tag) # rest) frame chunk =
     (if startswith tag ''I-'' then srl_loop rest frame (chunk @ [token])
      else
        (case flush_chunk frame chunk of (frame1, chunk1) \<Rightarrow>
           if startswith tag ''B-'' then srl_loop rest frame1 (chunk1 @ [drop 2 tag @ '': '' @ token])
           else if tag = ''O'' then srl_loop rest (frame1 @ [token]) chunk1
           else srl_loop rest frame1 chunk1))"

definition make_srl_string :: "string list \<Rightarrow> string list \<Rightarrow> string" where
  "make_srl_string words tags =
     (case srl_loop (zip words tags) [] [] of (frame, chunk) \<Rightarrow>
        join '' '' (fst (flush_chunk frame chunk)))"

text \<open>The tags whose word is copied into the output.\<close>

definition shown_tag :: "string \<Rightarrow> bool" where
  "shown_tag tag = (tag = ''O'' \<or> startswith tag ''B-'' \<or> startswith tag ''I-'')"

section \<open>\<open>add_srl_tags.py\<close>: instances for the SRL tagger\<close>

text \<open>
  \<open>seg.split()\<close>: the maximal runs of characters that are not white space, in order.
  Characters are code points below 256; those that Python counts as white space there
  are listed in \<open>isspace\<close>.
\<close>

definition isspace :: "char \<Rightarrow> bool" where
  "isspace c = (of_char c \<in> {9, 10, 11, 12, 13, 28, 29, 30, 31, 32, 133, 160 :: nat})"

fun split_loop :: "string \<Rightarrow> string \<Rightarrow> string list" where
  "split_loop [] cur = (if cur = [] then [] else [cur])"
| "split_loop (c # cs) cur =
     (if isspace c then (if cur = [] then split_loop cs [] else cur # split_loop cs [])
      else split_loop cs (cur @ [c]))"

definition str_split :: "string \<Rightarrow> string list" where
  "str_split s = split_loop s []"

text \<open>
  A generator is modelled by what it produces when it is run to its end: the values it
  yields, in order, and the exception that ends it, if any (\<open>None\<close> is the normal end,
  \<open>StopIteration\<close> for the consumer).
\<close>

type_synonym 'a generator = "'a list \<times> error option"

text \<open>Running one generator and then another; the second does not start if the first raises.\<close>

fun gen_then :: "'a generator \<Rightarrow> 'a generator \<Rightarrow> 'a generator" where
  "gen_then (ys, Some e) g = (ys, Some e)"
| "gen_then (ys, None) (zs, e) = (ys @ zs, e)"

text \<open>
  A spaCy token carries its text and, once the pipeline has run, its part of speech
  (the attribute \<open>pos_\<close>, here \<open>pos\<close>).
  The pretrained components are parameters of the model:
  \<^item> \<open>spacy_doc ws\<close> is the sequence of tokens of the document built from the words \<open>ws\<close>
    after every pipe of the tagger's pipeline has been applied to it;
  \<^item> \<open>text_to_instance\<close> is the dataset reader's constructor of an instance;
  \<^item> \<open>segment\<close> is the segmentation model.
\<close>

record token =
  orth :: string
  pos :: string

text \<open>
  The loop \<open>for i, word in enumerate(tokens)\<close>. The assignment \<open>verb_labels[i] = 1\<close>
  raises \<open>IndexError\<close> when \<open>i\<close> is not a position of \<open>verb_labels\<close>.
\<close>

fun verbs_loop ::
  "(token list \<Rightarrow> int list \<Rightarrow> 'i) \<Rightarrow> string list \<Rightarrow> token list \<Rightarrow> (nat \<times> token) list \<Rightarrow> 'i generator"
where
  "verbs_loop text_to_instance ws tokens [] = ([], None)"
| "verbs_loop text_to_instance ws tokens ((i, word) # rest) =
     (if pos word = ''VERB'' then
        (let verb_labels = map (\<lambda>_. 0) ws in
         if i < length verb_labels then
           (case verbs_loop text_to_instance ws tokens rest of
              (ys, e) \<Rightarrow> (text_to_instance tokens (verb_labels[i := 1]) # ys, e))
         else ([], Some IndexError))
      else verbs_loop text_to_instance ws tokens rest)"

definition gen_instances_from_segment ::
  "(string list \<Rightarrow> token list) \<Rightarrow> (token list \<Rightarrow> int list \<Rightarrow> 'i) \<Rightarrow> string \<Rightarrow> 'i generator"
where
  "gen_instances_from_segment spacy_doc text_to_instance seg =
     (let ws = str_split seg;
          tokens = spacy_doc ws
      in verbs_loop text_to_instance ws tokens (enumerate 0 tokens))"

text \<open>
  \<open>gen_instances\<close>. A generator object is always true in Python, so the test
  \<open>if not instances\<close> never takes the \<open>continue\<close> branch and every segment's generator is
  drained by \<open>yield from\<close>.
\<close>

fun segments_loop ::
  "(string list \<Rightarrow> token list) \<Rightarrow> (token list \<Rightarrow> int list \<Rightarrow> 'i) \<Rightarrow> string list \<Rightarrow> 'i generator"
where
  "segments_loop spacy_doc text_to_instance [] = ([], None)"
| "segments_loop spacy_doc text_to_instance (seg # segments) =
     gen_then (gen_instances_from_segment spacy_doc text_to_instance seg)
              (segments_loop spacy_doc text_to_instance segments)"

fun gen_instances ::
  "(string \<Rightarrow> string list) \<Rightarrow> (string list \<Rightarrow> token list) \<Rightarrow> (token list \<Rightarrow> int list \<Rightarrow> 'i) \<Rightarrow>
   string list list \<Rightarrow> 'i generator"
where
  "gen_instances segment spacy_doc text_to_instance [] = ([], None)"
| "gen_instances segment spacy_doc text_to_instance (u # utterances) =
     (let words_string = join '' '' u;
          segments = segment words_string
      in gen_then (segments_loop spacy_doc text_to_instance segments)
                  (gen_instances segment spacy_doc text_to_instance utterances))"

subsection \<open>Notions used in the statements about the generators\<close>

text \<open>The vector of length \<open>n\<close> with 1 at position \<open>i\<close> and 0 at every other position.\<close>

definition one_hot :: "nat \<Rightarrow> nat \<Rightarrow> int list" where
  "one_hot n i = map (\<lambda>j. if j = i then 1 else 0) [0..<n]"

text \<open>The positions of the tokens whose part of speech is \<open>VERB\<close>, in token order.\<close>

definition verb_positions :: "token list \<Rightarrow> nat list" where
  "verb_positions tokens = filter (\<lambda>i. pos (tokens ! i) = ''VERB'') [0..<length tokens]"

text \<open>Generators run one after another, in order, up to the first one that raises.\<close>

definition gen_chain :: "'a generator list \<Rightarrow> 'a generator" where
  "gen_chain gs = foldr gen_then gs ([], None)"

section \<open>\<open>add_srl_tags.py\<close>: the batch loop and the corpus file\<close>

definition INTERACTIVE :: bool where
  "INTERACTIVE = False"

definition BATCH_SIZE :: nat where
  "BATCH_SIZE = 128"

text \<open>One entry of the list returned by \<open>forward_on_instances\<close>.\<close>

record prediction =
  tags :: "string list"
  words :: "string list"

text \<open>
  The progress bar of \<open>pyprind\<close>. \<open>ProgBar(iterations)\<close> starts a counter at 0 and keeps
  \<open>max_iter = float(iterations)\<close>. \<open>update()\<close> adds one to the counter and computes the
  progress as \<open>cnt / max_iter * 100\<close>: this division of floats raises \<open>ZeroDivisionError\<close>
  when the bar was made for 0 iterations. What the bar prints is not part of the model.
\<close>

record prog_bar =
  cnt :: nat
  max_iter :: nat

definition ProgBar :: "nat \<Rightarrow> prog_bar" where
  "ProgBar iterations = \<lparr>cnt = 0, max_iter = iterations\<rparr>"

definition progress_update :: "prog_bar \<Rightarrow> error + prog_bar" where
  "progress_update bar =
     (let bar' = bar\<lparr>cnt := cnt bar + 1\<rparr>
      in if max_iter bar' = 0 then Inl ZeroDivisionError else Inr bar')"

text \<open>
  The state of the script: the progress bar, the counter, the collected lines, and the
  lines still to be read from the standard input (used by \<open>input\<close> in interactive mode
  only). What the script prints is not part of the model.
\<close>

record script_state =
  progress_bar :: prog_bar
  num_no_verb :: nat
  lines :: "string list"
  stdin :: "string list"

text \<open>\<open>xs.index(x)\<close>\<close>

fun index :: "'a list \<Rightarrow> 'a \<Rightarrow> error + nat" where
  "index [] x = Inl ValueError"
| "index (y # ys) x =
     (if y = x then Inr 0
      else (case index ys x of Inl e \<Rightarrow> Inl e | Inr i \<Rightarrow> Inr (Suc i)))"

text \<open>\<open>str(n)\<close> for a natural number: its decimal digits.\<close>

definition digit :: "nat \<Rightarrow> char" where
  "digit d = ''0123456789'' ! d"

fun str_nat :: "nat \<Rightarrow> string" where
  "str_nat n = (if n < 10 then [digit n] else str_nat (n div 10) @ [digit (n mod 10)])"

declare str_nat.simps [simp del]

definition input :: "script_state \<Rightarrow> error + (string \<times> script_state)" where
  "input s = (case stdin s of [] \<Rightarrow> Inl EOFError | k # ks \<Rightarrow> Inr (k, s\<lparr>stdin := ks\<rparr>))"

text \<open>The body of \<open>for d in res\<close>.\<close>

definition for_body :: "prediction \<Rightarrow> script_state \<Rightarrow> error + script_state" where
  "for_body d s =
     (let ts = tags d; ws = words d in
      if ''B-V'' \<notin> set ts then Inr (s\<lparr>num_no_verb := num_no_verb s + 1\<rparr>)
      else
        (case index ts ''B-V'' of
           Inl e \<Rightarrow> Inl e
         | Inr verb_index \<Rightarrow>
             (let x_string = join '' '' ws;
                  y_string = join '' '' ts;
                  line = str_nat verb_index @ '' '' @ x_string @ '' ||| '' @ y_string
              in if INTERACTIVE then
                   (case input s of
                      Inl e \<Rightarrow> Inl e
                    | Inr (key, s') \<Rightarrow>
                        if key \<noteq> ''q'' then Inr (s'\<lparr>lines := lines s' @ [line]\<rparr>)
                        else Inl (SystemExit ''Quit''))
                 else Inr (s\<lparr>lines := lines s @ [line]\<rparr>))))"

fun for_res :: "prediction list \<Rightarrow> script_state \<Rightarrow> error + script_state" where
  "for_res [] s = Inr s"
| "for_res (d # ds) s = (case for_body d s of Inl e \<Rightarrow> Inl e | Inr s' \<Rightarrow> for_res ds s')"

text \<open>
  The inner loop \<open>while len(batch) < BATCH_SIZE\<close>: it returns the batch, what is left of
  the iterator, and \<open>outer_loop\<close>; an exception raised by the iterator leaves the script.
\<close>

fun fill_batch :: "'i list \<Rightarrow> 'i generator \<Rightarrow> error + ('i list \<times> 'i generator \<times> bool)" where
  "fill_batch batch ([], e) =
     (if length batch < BATCH_SIZE then
        (case e of None \<Rightarrow> Inr (batch, ([], None), False) | Some err \<Rightarrow> Inl err)
      else Inr (batch, ([], e), True))"
| "fill_batch batch (instance # it, e) =
     (if length batch < BATCH_SIZE then fill_batch (batch @ [instance]) (it, e)
      else Inr (batch, (instance # it, e), True))"

lemma fill_batch_length:
  "fill_batch batch it = Inr (batch', it', outer_loop) \<Longrightarrow>
   length batch' + length (fst it') = length batch + length (fst it) \<and>
   (outer_loop \<longrightarrow> BATCH_SIZE \<le> length batch')"
proof (induction batch it rule: fill_batch.induct)
  case (1 batch e)
  then show ?case by (auto split: if_splits option.splits)
next
  case (2 batch x it e)
  then show ?case by (auto split: if_splits)
qed

text \<open>
  The outer loop \<open>while outer_loop\<close>. \<open>forward_on_instances\<close>, the forward pass of the
  pretrained SRL model on a batch of instances, is a parameter. Every round ends with
  \<open>progress_bar.update()\<close>, also the last one.
\<close>

function while_outer ::
  "('i list \<Rightarrow> prediction list) \<Rightarrow> 'i generator \<Rightarrow> script_state \<Rightarrow> error + script_state"
where
  "while_outer forward_on_instances it s =
     (case fill_batch [] it of
        Inl e \<Rightarrow> Inl e
      | Inr (batch, it', outer_loop) \<Rightarrow>
          (case for_res (forward_on_instances batch) s of
             Inl e \<Rightarrow> Inl e
           | Inr s' \<Rightarrow>
               (case progress_update (progress_bar s') of
                  Inl e \<Rightarrow> Inl e
                | Inr bar \<Rightarrow>
                    if outer_loop
                    then while_outer forward_on_instances it' (s'\<lparr>progress_bar := bar\<rparr>)
                    else Inr (s'\<lparr>progress_bar := bar\<rparr>))))"
  by pat_completeness auto
termination
proof (relation "measure (\<lambda>(f, it, s). length (fst it))")
  show "wf (measure (\<lambda>(f, it, s). length (fst it)))" by simp
next
  fix forward_on_instances :: "'i list \<Rightarrow> prediction list"
    and it :: "'i generator" and s :: script_state
    and r batch r' it' outer_loop and s' :: script_state
  assume "fill_batch [] it = Inr r" "(batch, r') = r" "(it', outer_loop) = r'" "outer_loop"
  then have "fill_batch [] it = Inr (batch, it', True)" by auto
  from fill_batch_length [OF this]
  have "length (fst it') < length (fst it)" by (simp add: BATCH_SIZE_def)
  then show "((forward_on_instances, it', s'), (forward_on_instances, it, s))
               \<in> measure (\<lambda>(f, it, s). length (fst it))"
    by simp
qed

declare while_outer.simps [simp del]

text \<open>\<open>for line in lines: f.write(line + '\n')\<close>, on the content of the file.\<close>

fun write_lines :: "string list \<Rightarrow> string \<Rightarrow> string" where
  "write_lines [] f = f"
| "write_lines (line # ls) f = write_lines ls (f @ line @ [CHR 0x0A])"

text \<open>
  The module-level code from the creation of the progress bar on, given the utterances
  and the iterator \<open>it\<close>: it returns the final state and the content of the corpus file,
  which is opened for writing (and so starts empty) only when the loop has ended without
  an exception.
\<close>

definition main ::
  "('i list \<Rightarrow> prediction list) \<Rightarrow> string list list \<Rightarrow> 'i generator \<Rightarrow> string list \<Rightarrow>
   error + (script_state \<times> string)"
where
  "main forward_on_instances utterances it keys =
     (case while_outer forward_on_instances it
             \<lparr>progress_bar = ProgBar (length utterances div BATCH_SIZE),
              num_no_verb = 0, lines = [], stdin = keys\<rparr> of
        Inl e \<Rightarrow> Inl e
      | Inr s \<Rightarrow> Inr (s, write_lines (lines s) []))"

definition script ::
  "(string \<Rightarrow> string list) \<Rightarrow> (string list \<Rightarrow> token list) \<Rightarrow> (token list \<Rightarrow> int list \<Rightarrow> 'i) \<Rightarrow>
   ('i list \<Rightarrow> prediction list) \<Rightarrow> string list list \<Rightarrow> string list \<Rightarrow> error + (script_state \<times> string)"
where
  "script segment spacy_doc text_to_instance forward_on_instances utterances keys =
     main forward_on_instances utterances
       (gen_instances segment spacy_doc text_to_instance utterances) keys"

subsection \<open>Notions used in the statements about the script\<close>

text \<open>
  The batches that the loop sends to the predictor when the iterator yields \<open>xs\<close>: full
  batches of \<open>BATCH_SIZE\<close> instances while that many are left, then one last batch with
  the remainder (which is empty when nothing is left).
\<close>

function batches :: "'i list \<Rightarrow> 'i list list" where
  "batches xs =
     (if BATCH_SIZE \<le> length xs then take BATCH_SIZE xs # batches (drop BATCH_SIZE xs)
      else [xs])"
  by pat_completeness auto
termination
  by (relation "measure length") (auto simp: BATCH_SIZE_def)

declare batches.simps [simp del]

text \<open>The index of the first occurrence of \<open>x\<close> in \<open>xs\<close>.\<close>

definition first_occurrence :: "'a list \<Rightarrow> 'a \<Rightarrow> nat" where
  "first_occurrence xs x = length (takeWhile (\<lambda>y. y \<noteq> x) xs)"

text \<open>The line \<open><verb_index> <words> ||| <tags>\<close> of a prediction.\<close>

definition srl_line :: "prediction \<Rightarrow> string" where
  "srl_line d =
     str_nat (first_occurrence (tags d) ''B-V'') @ '' '' @ join '' '' (words d)
       @ '' ||| '' @ join '' '' (tags d)"

definition has_verb :: "prediction \<Rightarrow> bool" where
  "has_verb d = (''B-V'' \<in> set (tags d))"

section \<open>\<open>eval.py\<close>: \<open>evaluate_model_on_pp\<close>\<close>

text \<open>
  The tensor arithmetic of PyTorch is not part of the repository. A scalar tensor is a
  value of a type \<open>'t\<close>, and the four operations the function uses are parameters, so
  that nothing is assumed about how they round:
  \<open>torch.exp(t)\<close>, \<open>t1 + t2\<close>, \<open>x + t\<close> for a Python number \<open>x\<close>, and \<open>t / n\<close> for a Python
  integer \<open>n\<close>.
\<close>

record 't torch =
  torch_exp :: "'t \<Rightarrow> 't"
  tensor_add :: "'t \<Rightarrow> 't \<Rightarrow> 't"
  tensor_radd :: "real \<Rightarrow> 't \<Rightarrow> 't"
  tensor_div :: "'t \<Rightarrow> int \<Rightarrow> 't"

text \<open>
  The values that \<open>pp_sum\<close> and the result can hold: a Python integer, a Python float
  (arising only from the division of two integers, and standing for its exact quotient),
  or a tensor.
\<close>

datatype 't number = PyInt int | PyFloat real | Tensor 't

text \<open>\<open>pp_sum += pp\<close> for a tensor \<open>pp\<close>\<close>

fun iadd :: "'t torch \<Rightarrow> 't number \<Rightarrow> 't \<Rightarrow> 't number" where
  "iadd T (PyInt i) pp = Tensor (tensor_radd T (of_int i) pp)"
| "iadd T (PyFloat x) pp = Tensor (tensor_radd T x pp)"
| "iadd T (Tensor t) pp = Tensor (tensor_add T t pp)"

text \<open>\<open>pp_sum / num_steps\<close> for the integer \<open>num_steps\<close>\<close>

fun truediv :: "'t torch \<Rightarrow> 't number \<Rightarrow> int \<Rightarrow> error + 't number" where
  "truediv T (PyInt i) n =
     (if n = 0 then Inl ZeroDivisionError else Inr (PyFloat (of_int i / of_int n)))"
| "truediv T (PyFloat x) n =
     (if n = 0 then Inl ZeroDivisionError else Inr (PyFloat (x / of_int n)))"
| "truediv T (Tensor t) n = Inr (Tensor (tensor_div T t n))"

record params =
  batch_size :: int

text \<open>
  A batch of the language-modelling task: the entry \<open>lm_tags\<close> is a tensor of shape
  (batch size, number of tokens), here the list of its rows, so that \<open>len\<close> of it is the
  number of rows. The other entries of the batch are the extension of the record.
\<close>

record lm_batch =
  lm_tags :: "int list list"

text \<open>
  The loop of \<open>evaluate_model_on_pp\<close> on \<open>(pp_sum, num_steps)\<close>. \<open>model\<close> is the model in
  evaluation mode: it maps a batch to its output dictionary, of which only the
  tensor-valued entries are kept.
\<close>

fun pp_loop ::
  "'t torch \<Rightarrow> ('a lm_batch_scheme \<Rightarrow> (string \<rightharpoonup> 't)) \<Rightarrow> params \<Rightarrow> 'a lm_batch_scheme list \<Rightarrow>
   't number \<Rightarrow> int \<Rightarrow> error + ('t number \<times> int)"
where
  "pp_loop T model ps [] pp_sum num_steps = Inr (pp_sum, num_steps)"
| "pp_loop T model ps (batch # rest) pp_sum num_steps =
     (if int (length (lm_tags batch)) \<noteq> batch_size ps then pp_loop T model ps rest pp_sum num_steps
      else
        (let output_dict = model batch in
         case output_dict ''loss'' of
           None \<Rightarrow> Inl (KeyError ''loss'')
         | Some loss \<Rightarrow>
             (let pp = torch_exp T loss
              in pp_loop T model ps rest (iadd T pp_sum pp) (num_steps + 1))))"

text \<open>
  \<open>bucket_batcher instances num_epochs\<close> is the sequence of batches that the iterator
  generates; with \<open>num_epochs = 1\<close> it is finite.
\<close>

definition evaluate_model_on_pp ::
  "'t torch \<Rightarrow> ('a lm_batch_scheme \<Rightarrow> (string \<rightharpoonup> 't)) \<Rightarrow> params \<Rightarrow>
   ('insts \<Rightarrow> nat \<Rightarrow> 'a lm_batch_scheme list) \<Rightarrow> 'insts \<Rightarrow> error + 't number"
where
  "evaluate_model_on_pp T model ps bucket_batcher instances =
     (let instances_generator = bucket_batcher instances 1 in
      case pp_loop T model ps instances_generator (PyInt 0) 0 of
        Inl e \<Rightarrow> Inl e
      | Inr (pp_sum, num_steps) \<Rightarrow> truediv T pp_sum num_steps)"

subsection \<open>Notions used in the statements about \<open>evaluate_model_on_pp\<close>\<close>

text \<open>The batches that are processed: those with \<open>batch_size\<close> rows of \<open>lm_tags\<close>.\<close>

definition full_size :: "params \<Rightarrow> 'a lm_batch_scheme \<Rightarrow> bool" where
  "full_size ps batch = (int (length (lm_tags batch)) = batch_size ps)"

text \<open>
  The arithmetic mean of a non-empty list of tensors, in tensor arithmetic: their sum,
  accumulated from the integer 0 in the order of the list, divided by their number.
\<close>

definition tensor_sum :: "'t torch \<Rightarrow> 't list \<Rightarrow> 't" where
  "tensor_sum T ts = foldl (tensor_add T) (tensor_radd T 0 (hd ts)) (tl ts)"

definition tensor_mean :: "'t torch \<Rightarrow> 't list \<Rightarrow> 't" where
  "tensor_mean T ts = tensor_div T (tensor_sum T ts) (int (length ts))"

text \<open>The perplexities \<open>exp(loss)\<close> of the processed batches, in the order of the epoch.\<close>

definition perplexities ::
  "'t torch \<Rightarrow> ('a lm_batch_scheme \<Rightarrow> (string \<rightharpoonup> 't)) \<Rightarrow> params \<Rightarrow> 'a lm_batch_scheme list \<Rightarrow> 't list"
where
  "perplexities T model ps bs =
     map (\<lambda>batch. torch_exp T (the (model batch ''loss''))) (filter (full_size ps) bs)"

section \<open>\<open>eval.py\<close>: \<open>evaluate_model_on_f1\<close>\<close>

text \<open>
  The metadata of one example and a batch of the SRL task. The entry \<open>tags\<close> of the batch
  is a tensor of shape (batch size, number of tokens), here the list of its rows, named
  \<open>batch_tags\<close>; the metadata entry \<open>words\<close> is named \<open>words_md\<close>.
\<close>

record srl_metadata =
  verb_index :: "int option"
  words_md :: "string list"
  gold_tags :: "string list"

record srl_batch =
  batch_tags :: "int list list"
  metadata :: "srl_metadata list"

text \<open>
  \<open>babybertsrl.scorer\<close> is not among the sources: the scorer is a parameter. A metric
  object is a value of a type \<open>'m\<close>; \<open>SrlEvalScorer path ignore_classes\<close> constructs one,
  \<open>update\<close> is its call on the verb indices, the sentences, the predicted and the gold
  CoNLL tags of a batch, \<open>get_metric m reset\<close> is the dictionary of its measures, and
  \<open>convert_bio_tags_to_conll_format\<close> converts one tag sequence.
\<close>

record ('m, 'f) scorer =
  SrlEvalScorer :: "string \<Rightarrow> string list \<Rightarrow> 'm"
  update ::
    "'m \<Rightarrow> int option list \<Rightarrow> string list list \<Rightarrow> string list list \<Rightarrow> string list list \<Rightarrow> 'm"
  get_metric :: "'m \<Rightarrow> bool \<Rightarrow> (string \<rightharpoonup> 'f)"
  convert_bio_tags_to_conll_format :: "string list \<Rightarrow> string list"

text \<open>
  The loop of \<open>evaluate_model_on_f1\<close> on the metric object. \<open>model\<close> maps a batch to its
  output dictionary and \<open>decode\<close> is \<open>model.decode\<close>, whose result is a dictionary from
  which the entry \<open>tags\<close>, a list of tag sequences, is popped.
\<close>

fun f1_loop ::
  "('m, 'f) scorer \<Rightarrow> ('a srl_batch_scheme \<Rightarrow> 'o) \<Rightarrow> ('o \<Rightarrow> (string \<rightharpoonup> string list list)) \<Rightarrow>
   params \<Rightarrow> 'a srl_batch_scheme list \<Rightarrow> 'm \<Rightarrow> error + 'm"
where
  "f1_loop S model decode ps [] span_metric = Inr span_metric"
| "f1_loop S model decode ps (batch # rest) span_metric =
     (if int (length (batch_tags batch)) \<noteq> batch_size ps then f1_loop S model decode ps rest span_metric
      else
        (let output_dict = model batch;
             md = metadata batch;
             batch_verb_indices = map verb_index md;
             batch_sentences = map words_md md
         in case decode output_dict ''tags'' of
              None \<Rightarrow> Inl (KeyError ''tags'')
            | Some batch_bio_predicted_tags \<Rightarrow>
                (let batch_conll_predicted_tags =
                       map (convert_bio_tags_to_conll_format S) batch_bio_predicted_tags;
                     batch_bio_gold_tags = map gold_tags md;
                     batch_conll_gold_tags =
                       map (convert_bio_tags_to_conll_format S) batch_bio_gold_tags
                 in f1_loop S model decode ps rest
                      (update S span_metric batch_verb_indices batch_sentences
                         batch_conll_predicted_tags batch_conll_gold_tags))))"

definition evaluate_model_on_f1 ::
  "('m, 'f) scorer \<Rightarrow> ('a srl_batch_scheme \<Rightarrow> 'o) \<Rightarrow> ('o \<Rightarrow> (string \<rightharpoonup> string list list)) \<Rightarrow>
   params \<Rightarrow> string \<Rightarrow> ('insts \<Rightarrow> nat \<Rightarrow> 'a srl_batch_scheme list) \<Rightarrow> 'insts \<Rightarrow> error + 'f"
where
  "evaluate_model_on_f1 S model decode ps srl_eval_path bucket_batcher instances =
     (let span_metric = SrlEvalScorer S srl_eval_path [''V''];
          instances_generator = bucket_batcher instances 1
      in case f1_loop S model decode ps instances_generator span_metric of
           Inl e \<Rightarrow> Inl e
         | Inr span_metric' \<Rightarrow>
             (let metric_dict = get_metric S span_metric' True
              in case metric_dict ''f1-measure-overall'' of
                   None \<Rightarrow> Inl (KeyError ''f1-measure-overall'')
                 | Some f1 \<Rightarrow> Inr f1))"

subsection \<open>Notions used in the statements about \<open>evaluate_model_on_f1\<close>\<close>

definition full_size_srl :: "params \<Rightarrow> 'a srl_batch_scheme \<Rightarrow> bool" where
  "full_size_srl ps batch = (int (length (batch_tags batch)) = batch_size ps)"

text \<open>
  Updating the metric with one batch whose predicted BIO tag sequences are \<open>predicted\<close>:
  these and the gold BIO tag sequences of the metadata are converted to CoNLL format.
\<close>

definition update_with ::
  "('m, 'f) scorer \<Rightarrow> 'm \<Rightarrow> 'a srl_batch_scheme \<Rightarrow> string list list \<Rightarrow> 'm"
where
  "update_with S m batch predicted =
     update S m (map verb_index (metadata batch)) (map words_md (metadata batch))
       (map (convert_bio_tags_to_conll_format S) predicted)
       (map (convert_bio_tags_to_conll_format S) (map gold_tags (metadata batch)))"

text \<open>
  The metric object after it has been updated with every processed batch of \<open>bs\<close>, in
  order, starting from a new scorer that ignores the class \<open>V\<close>.
\<close>

definition accumulated_metric ::
  "('m, 'f) scorer \<Rightarrow> ('a srl_batch_scheme \<Rightarrow> 'o) \<Rightarrow> ('o \<Rightarrow> (string \<rightharpoonup> string list list)) \<Rightarrow>
   params \<Rightarrow> string \<Rightarrow> 'a srl_batch_scheme list \<Rightarrow> 'm"
where
  "accumulated_metric S model decode ps srl_eval_path bs =
     foldl (\<lambda>m batch. update_with S m batch (the (decode (model batch) ''tags'')))
       (SrlEvalScorer S srl_eval_path [''V'']) (filter (full_size_srl ps) bs)"

section \<open>Properties of \<open>make_srl_string\<close>\<close>

lemma srl_loop_other_tag:
  "\<not> shown_tag tag \<Longrightarrow>
   srl_loop ((token, tag) # rest) frame chunk = srl_loop ((token', tag) # rest) frame chunk"
  by (simp add: shown_tag_def split: prod.splits)

lemma srl_loop_agree:
  assumes "length ws = length ws'" and "length ws' = length ts"
    and "\<forall>i < length ts. shown_tag (ts ! i) \<longrightarrow> ws ! i = ws' ! i"
  shows "srl_loop (zip ws ts) frame chunk = srl_loop (zip ws' ts) frame chunk"
  using assms
proof (induction ws ws' ts arbitrary: frame chunk rule: list_induct3)
  case Nil
  show ?case by simp
next
  case (Cons w ws w' ws' t ts)
  have tl: "\<forall>i < length ts. shown_tag (ts ! i) \<longrightarrow> ws ! i = ws' ! i"
  proof (intro allI impI)
    fix i assume "i < length ts" and "shown_tag (ts ! i)"
    with Cons.prems have "(w # ws) ! Suc i = (w' # ws') ! Suc i" by auto
    then show "ws ! i = ws' ! i" by simp
  qed
  have rest: "\<And>f c. srl_loop (zip ws ts) f c = srl_loop (zip ws' ts) f c"
    using Cons.IH [OF tl] .
  show ?case
  proof (cases "shown_tag t")
    case True
    with Cons.prems have "w = w'" by auto
    then show ?thesis by (simp add: rest split: prod.splits)
  next
    case False
    then show ?thesis
      by (simp add: rest shown_tag_def split: prod.splits)
  qed
qed

text \<open>
  C9. For word and tag lists of equal length, the string returned by \<open>make_srl_string\<close>
  is built only from the words whose tag is \<open>O\<close> or starts with \<open>B-\<close> or \<open>I-\<close>: two word
  lists that agree at every position carrying such a tag give the same string, so the
  word at a position with any other tag never reaches the output.
\<close>

theorem make_srl_string_only_shown_words:
  assumes "length ws = length ts" and "length ws' = length ts"
    and "\<forall>i < length ts. shown_tag (ts ! i) \<longrightarrow> ws ! i = ws' ! i"
  shows "make_srl_string ws ts = make_srl_string ws' ts"
  using srl_loop_agree [of ws ws' ts "[]" "[]"] assms
  by (simp add: make_srl_string_def)

theorem make_srl_string_only_shown_words_witness:
  "make_srl_string [''you'', ''uh'', ''want'', ''it''] [''B-ARG0'', ''X'', ''B-V'', ''O'']
     = make_srl_string [''you'', ''hmm'', ''want'', ''it''] [''B-ARG0'', ''X'', ''B-V'', ''O'']
   \<and> make_srl_string [''you'', ''hmm'', ''want'', ''it''] [''B-ARG0'', ''X'', ''B-V'', ''O'']
     = ''[ARG0: you] [V: want] it''"
proof -
  have "\<forall>i < length [''B-ARG0'', ''X'', ''B-V'', ''O''].
          shown_tag ([''B-ARG0'', ''X'', ''B-V'', ''O''] ! i) \<longrightarrow>
          [''you'', ''uh'', ''want'', ''it''] ! i = [''you'', ''hmm'', ''want'', ''it''] ! i"
    by (simp add: less_Suc_eq_0_disj nth_Cons' shown_tag_def startswith_def)
  then have "make_srl_string [''you'', ''uh'', ''want'', ''it''] [''B-ARG0'', ''X'', ''B-V'', ''O'']
     = make_srl_string [''you'', ''hmm'', ''want'', ''it''] [''B-ARG0'', ''X'', ''B-V'', ''O'']"
    using make_srl_string_only_shown_words
      [of "[''you'', ''uh'', ''want'', ''it'']" "[''B-ARG0'', ''X'', ''B-V'', ''O'']"
          "[''you'', ''hmm'', ''want'', ''it'']"]
    by simp
  moreover have "make_srl_string [''you'', ''hmm'', ''want'', ''it''] [''B-ARG0'', ''X'', ''B-V'', ''O'']
     = ''[ARG0: you] [V: want] it''"
    by (simp add: make_srl_string_def flush_chunk_def startswith_def)
  ultimately show ?thesis by simp
qed

section \<open>Properties of the batch loop of \<open>add_srl_tags.py\<close>\<close>

lemma index_first_occurrence:
  "x \<in> set xs \<Longrightarrow> index xs x = Inr (first_occurrence xs x)"
  by (induction xs) (auto simp: first_occurrence_def)

lemma first_occurrence_less:
  "x \<in> set xs \<Longrightarrow> first_occurrence xs x < length xs"
  by (induction xs) (auto simp: first_occurrence_def)

lemma first_occurrence_nth:
  "x \<in> set xs \<Longrightarrow> xs ! first_occurrence xs x = x"
  by (induction xs) (auto simp: first_occurrence_def)

lemma first_occurrence_before:
  "j < first_occurrence xs x \<Longrightarrow> xs ! j \<noteq> x"
proof (induction xs arbitrary: j)
  case Nil
  then show ?case by (simp add: first_occurrence_def)
next
  case (Cons y ys)
  then show ?case
    by (cases j) (auto simp: first_occurrence_def split: if_splits)
qed

lemma for_body_has_verb:
  "has_verb d \<Longrightarrow> for_body d s = Inr (s\<lparr>lines := lines s @ [srl_line d]\<rparr>)"
  by (simp add: for_body_def has_verb_def index_first_occurrence srl_line_def INTERACTIVE_def Let_def)

lemma for_body_no_verb:
  "\<not> has_verb d \<Longrightarrow> for_body d s = Inr (s\<lparr>num_no_verb := Suc (num_no_verb s)\<rparr>)"
  by (simp add: for_body_def has_verb_def Let_def)

lemma for_res_result:
  "for_res ds s =
     Inr (s\<lparr>num_no_verb := num_no_verb s + length (filter (\<lambda>d. \<not> has_verb d) ds),
            lines := lines s @ map srl_line (filter has_verb ds)\<rparr>)"
proof (induction ds arbitrary: s)
  case Nil
  show ?case by simp
next
  case (Cons d ds)
  show ?case
  proof (cases "has_verb d")
    case True
    then show ?thesis by (simp add: for_body_has_verb Cons.IH)
  next
    case False
    then show ?thesis by (simp add: for_body_no_verb Cons.IH)
  qed
qed

lemma fill_batch_no_raise:
  "length b \<le> BATCH_SIZE \<Longrightarrow>
   fill_batch b (xs, None) =
     (if BATCH_SIZE \<le> length b + length xs
      then Inr (b @ take (BATCH_SIZE - length b) xs, (drop (BATCH_SIZE - length b) xs, None), True)
      else Inr (b @ xs, ([], None), False))"
proof (induction xs arbitrary: b)
  case Nil
  then show ?case by auto
next
  case (Cons x xs)
  show ?case
  proof (cases "length b < BATCH_SIZE")
    case True
    then have "length (b @ [x]) \<le> BATCH_SIZE" by simp
    from Cons.IH [OF this] True show ?thesis
      by (auto simp: Suc_diff_le take_Cons' drop_Cons')
  next
    case False
    with Cons.prems have "length b = BATCH_SIZE" by simp
    then show ?thesis by simp
  qed
qed

lemma fill_batch_start:
  "fill_batch [] (xs, None) =
     (if BATCH_SIZE \<le> length xs
      then Inr (take BATCH_SIZE xs, (drop BATCH_SIZE xs, None), True)
      else Inr (xs, ([], None), False))"
  using fill_batch_no_raise [of "[]" xs] by simp

lemma write_lines_concat:
  "write_lines ls f = f @ concat (map (\<lambda>l. l @ [CHR 0x0A]) ls)"
  by (induction ls arbitrary: f) auto

text \<open>
  The loop as a whole, for an iterator that ends normally. When the progress bar was made
  for at least one iteration, the loop ends with the lines of the predictions that have
  \<open>B-V\<close>, in order, and the count of the others; when it was made for 0 iterations, the
  first \<open>progress_bar.update()\<close> raises.
\<close>

lemma progress_update_positive:
  "0 < max_iter bar \<Longrightarrow> progress_update bar = Inr (bar\<lparr>cnt := Suc (cnt bar)\<rparr>)"
  by (simp add: progress_update_def Let_def)

lemma progress_update_zero:
  "max_iter bar = 0 \<Longrightarrow> progress_update bar = Inl ZeroDivisionError"
  by (simp add: progress_update_def Let_def)

lemma while_outer_zero_bar:
  assumes "max_iter (progress_bar s) = 0"
  shows "while_outer fwd (xs, None) s = Inl ZeroDivisionError"
proof (cases "BATCH_SIZE \<le> length xs")
  case True
  then show ?thesis
    by (subst while_outer.simps)
       (simp add: fill_batch_start for_res_result progress_update_zero assms)
next
  case False
  then show ?thesis
    by (subst while_outer.simps)
       (simp add: fill_batch_start for_res_result progress_update_zero assms)
qed

lemma while_outer_result:
  "0 < max_iter (progress_bar s) \<Longrightarrow>
   while_outer fwd (xs, None) s =
     Inr (s\<lparr>progress_bar := (progress_bar s)\<lparr>cnt := cnt (progress_bar s) + length (batches xs)\<rparr>,
            num_no_verb :=
              num_no_verb s + length (filter (\<lambda>d. \<not> has_verb d) (concat (map fwd (batches xs)))),
            lines := lines s @ map srl_line (filter has_verb (concat (map fwd (batches xs))))\<rparr>)"
proof (induction xs arbitrary: s rule: batches.induct)
  case (1 xs)
  let ?s1 = "s\<lparr>num_no_verb := num_no_verb s
                 + length (filter (\<lambda>d. \<not> has_verb d) (fwd (take BATCH_SIZE xs))),
               lines := lines s @ map srl_line (filter has_verb (fwd (take BATCH_SIZE xs))),
               progress_bar := (progress_bar s)\<lparr>cnt := Suc (cnt (progress_bar s))\<rparr>\<rparr>"
  show ?case
  proof (cases "BATCH_SIZE \<le> length xs")
    case True
    have b: "batches xs = take BATCH_SIZE xs # batches (drop BATCH_SIZE xs)"
      using True by (subst batches.simps) simp
    have p: "0 < max_iter (progress_bar ?s1)" using "1.prems" by simp
    show ?thesis
      by (subst while_outer.simps)
         (simp add: fill_batch_start True for_res_result progress_update_positive "1.prems"
            "1.IH" [OF True p] b)
  next
    case False
    have b: "batches xs = [xs]"
      using False by (subst batches.simps) simp
    show ?thesis
      by (subst while_outer.simps)
         (simp add: fill_batch_start False for_res_result progress_update_positive "1.prems" b)
  qed
qed

lemma main_large_corpus:
  assumes "BATCH_SIZE \<le> length utterances"
  shows "main fwd utterances (xs, None) keys =
     Inr (\<lparr>progress_bar = \<lparr>cnt = length (batches xs), max_iter = length utterances div BATCH_SIZE\<rparr>,
           num_no_verb = length (filter (\<lambda>d. \<not> has_verb d) (concat (map fwd (batches xs)))),
           lines = map srl_line (filter has_verb (concat (map fwd (batches xs)))),
           stdin = keys\<rparr>,
          concat (map (\<lambda>l. l @ [CHR 0x0A])
                    (map srl_line (filter has_verb (concat (map fwd (batches xs)))))))"
proof -
  from assms have "0 < length utterances div BATCH_SIZE"
    by (simp add: BATCH_SIZE_def div_greater_zero_iff)
  then have "0 < max_iter (progress_bar \<lparr>progress_bar = ProgBar (length utterances div BATCH_SIZE),
              num_no_verb = 0, lines = [], stdin = keys\<rparr>)"
    by (simp add: ProgBar_def)
  from while_outer_result [OF this, of fwd xs] show ?thesis
    by (simp add: main_def write_lines_concat ProgBar_def)
qed

lemma main_small_corpus:
  assumes "length utterances < BATCH_SIZE"
  shows "main fwd utterances (xs, None) keys = Inl ZeroDivisionError"
proof -
  from assms have "max_iter (progress_bar \<lparr>progress_bar = ProgBar (length utterances div BATCH_SIZE),
              num_no_verb = 0, lines = [], stdin = keys\<rparr>) = 0"
    by (simp add: ProgBar_def)
  from while_outer_zero_bar [OF this, of fwd xs] show ?thesis
    by (simp add: main_def)
qed

section \<open>Properties of the generators of \<open>add_srl_tags.py\<close>\<close>

lemma one_hot_update:
  "i < length ws \<Longrightarrow> (map (\<lambda>_. 0) ws)[i := 1] = one_hot (length ws) i"
  by (rule nth_equalityI) (simp_all add: one_hot_def nth_list_update)

lemma one_hot_props:
  "length (one_hot n i) = n"
  "i < n \<Longrightarrow> one_hot n i ! i = 1"
  "j < n \<Longrightarrow> j \<noteq> i \<Longrightarrow> one_hot n i ! j = 0"
  by (simp_all add: one_hot_def)

lemma verbs_loop_enumerate:
  "k + length toks \<le> length ws \<Longrightarrow>
   verbs_loop t2i ws tokens (enumerate k toks) =
     (map (\<lambda>(i, w). t2i tokens (one_hot (length ws) i))
        (filter (\<lambda>(i, w). pos w = ''VERB'') (enumerate k toks)), None)"
proof (induction toks arbitrary: k)
  case Nil
  show ?case by simp
next
  case (Cons t toks)
  from Cons.prems have "Suc k + length toks \<le> length ws" and "k < length ws" by simp_all
  with Cons.IH [of "Suc k"] show ?case
    by (simp add: one_hot_update Let_def)
qed

lemma enumerate_nth:
  "enumerate 0 xs = map (\<lambda>i. (i, xs ! i)) [0..<length xs]"
  by (rule nth_equalityI) (simp_all add: nth_enumerate_eq)

lemma verbs_of_enumerate:
  "map (\<lambda>(i, w). f i) (filter (\<lambda>(i, w). pos w = ''VERB'') (enumerate 0 tokens))
     = map f (verb_positions tokens)"
  by (simp add: enumerate_nth verb_positions_def filter_map comp_def)

lemma str_split_you_eat: "str_split ''you eat'' = [''you'', ''eat'']"
  by (simp add: str_split_def isspace_def)

text \<open>
  C5. When the document built from the words of a segment has a token for each word (no
  more tokens than words), \<open>gen_instances_from_segment\<close> yields exactly one instance for
  each token whose part of speech is \<open>VERB\<close>, in token order, and then ends normally. The
  instance for the token at position \<open>i\<close> is built from the tokens and the vector
  \<open>verb_labels\<close> that has as many entries as the segment has words, 1 at position \<open>i\<close>
  and 0 everywhere else.
\<close>

theorem gen_instances_from_segment_verbs:
  assumes "length (spacy_doc (str_split seg)) \<le> length (str_split seg)"
  shows "gen_instances_from_segment spacy_doc t2i seg =
           (map (\<lambda>i. t2i (spacy_doc (str_split seg)) (one_hot (length (str_split seg)) i))
              (verb_positions (spacy_doc (str_split seg))), None)"
  using assms verbs_loop_enumerate [of 0 "spacy_doc (str_split seg)" "str_split seg" t2i "spacy_doc (str_split seg)"]
  by (simp add: gen_instances_from_segment_def Let_def verbs_of_enumerate)

theorem gen_instances_from_segment_verbs_witness:
  "gen_instances_from_segment
     (map (\<lambda>w. \<lparr>orth = w, pos = (if w = ''eat'' then ''VERB'' else ''NOUN'')\<rparr>))
     (\<lambda>toks labels. (map orth toks, labels)) ''you eat''
   = ([([''you'', ''eat''], [0, 1])], None)"
proof -
  let ?sd = "map (\<lambda>w. \<lparr>orth = w, pos = (if w = ''eat'' then ''VERB'' else ''NOUN'')\<rparr>)"
  have "length (?sd (str_split ''you eat'')) \<le> length (str_split ''you eat'')" by simp
  from gen_instances_from_segment_verbs
         [of ?sd "''you eat''" "\<lambda>toks labels. (map orth toks, labels)", OF this]
  show ?thesis
    by (simp add: str_split_you_eat verb_positions_def one_hot_def upt_rec)
qed

lemma gen_then_empty [simp]: "gen_then ([], None) g = g"
  by (cases g) simp

lemma gen_then_assoc:
  "gen_then (gen_then a b) c = gen_then a (gen_then b c)"
proof -
  obtain xs e ys f zs g where "a = (xs, e)" "b = (ys, f)" "c = (zs, g)"
    by (cases a, cases b, cases c)
  then show ?thesis
    by (cases e; cases f) simp_all
qed

lemma gen_chain_append:
  "gen_chain (gs @ hs) = gen_then (gen_chain gs) (gen_chain hs)"
  by (induction gs) (simp_all add: gen_chain_def gen_then_assoc)

lemma segments_loop_chain:
  "segments_loop sd t2i segs = gen_chain (map (gen_instances_from_segment sd t2i) segs)"
  by (induction segs) (simp_all add: gen_chain_def)

lemma gen_instances_chain:
  "gen_instances segment sd t2i us =
     gen_chain (map (gen_instances_from_segment sd t2i) (concat (map (\<lambda>u. segment (join '' '' u)) us)))"
proof (induction us)
  case Nil
  show ?case by (simp add: gen_chain_def)
next
  case (Cons u us)
  then show ?case
    by (simp add: Let_def segments_loop_chain gen_chain_append)
qed

lemma gen_then_yields:
  "set (fst (gen_then a b)) \<subseteq> set (fst a) \<union> set (fst b)"
proof -
  obtain xs e ys f where "a = (xs, e)" "b = (ys, f)" by (cases a, cases b)
  then show ?thesis by (cases e) auto
qed

lemma gen_chain_yields:
  "x \<in> set (fst (gen_chain gs)) \<Longrightarrow> \<exists>g \<in> set gs. x \<in> set (fst g)"
proof (induction gs)
  case Nil
  then show ?case by (simp add: gen_chain_def)
next
  case (Cons g gs)
  have "gen_chain (g # gs) = gen_then g (gen_chain gs)" by (simp add: gen_chain_def)
  with Cons.prems gen_then_yields [of g "gen_chain gs"]
  have "x \<in> set (fst g) \<or> x \<in> set (fst (gen_chain gs))" by auto
  with Cons.IH show ?case by auto
qed

lemma gen_chain_no_raise:
  "\<forall>g \<in> set gs. snd g = None \<Longrightarrow> gen_chain gs = (concat (map fst gs), None)"
proof (induction gs)
  case Nil
  show ?case by (simp add: gen_chain_def)
next
  case (Cons g gs)
  then have "gen_chain gs = (concat (map fst gs), None)" and "snd g = None" by simp_all
  moreover have "gen_chain (g # gs) = gen_then g (gen_chain gs)" by (simp add: gen_chain_def)
  ultimately show ?case by (cases g) simp
qed

text \<open>
  C6. \<open>gen_instances\<close> joins the words of every utterance with single spaces, segments
  the result with the segmentation model, and runs the generators of the segments one
  after another, utterance by utterance and segment by segment. When no segment's
  generator raises, it yields the instances of all segments in this order and ends
  normally. In every case each instance it yields is yielded for a segment of some
  utterance.
\<close>

theorem gen_instances_in_segment_order:
  "gen_instances segment sd t2i us =
     gen_chain (map (gen_instances_from_segment sd t2i)
                  (concat (map (\<lambda>u. segment (join '' '' u)) us))) \<and>
   ((\<forall>u \<in> set us. \<forall>seg \<in> set (segment (join '' '' u)).
        snd (gen_instances_from_segment sd t2i seg) = None) \<longrightarrow>
    gen_instances segment sd t2i us =
      (concat (map (\<lambda>seg. fst (gen_instances_from_segment sd t2i seg))
                 (concat (map (\<lambda>u. segment (join '' '' u)) us))), None)) \<and>
   (\<forall>x \<in> set (fst (gen_instances segment sd t2i us)).
      \<exists>u \<in> set us. \<exists>seg \<in> set (segment (join '' '' u)).
        x \<in> set (fst (gen_instances_from_segment sd t2i seg)))"
proof (intro conjI impI ballI)
  let ?segs = "concat (map (\<lambda>u. segment (join '' '' u)) us)"
  let ?gs = "map (gen_instances_from_segment sd t2i) ?segs"
  show eq: "gen_instances segment sd t2i us = gen_chain ?gs"
    by (rule gen_instances_chain)
  {
    assume "\<forall>u \<in> set us. \<forall>seg \<in> set (segment (join '' '' u)).
              snd (gen_instances_from_segment sd t2i seg) = None"
    then have "\<forall>g \<in> set ?gs. snd g = None" by auto
    from gen_chain_no_raise [OF this]
    show "gen_instances segment sd t2i us =
            (concat (map (\<lambda>seg. fst (gen_instances_from_segment sd t2i seg)) ?segs), None)"
      by (simp add: eq comp_def)
  }
  {
    fix x assume "x \<in> set (fst (gen_instances segment sd t2i us))"
    then have "x \<in> set (fst (gen_chain ?gs))" by (simp add: eq)
    from gen_chain_yields [OF this]
    show "\<exists>u \<in> set us. \<exists>seg \<in> set (segment (join '' '' u)).
            x \<in> set (fst (gen_instances_from_segment sd t2i seg))"
      by auto
  }
qed

theorem gen_instances_in_segment_order_witness:
  "gen_instances (\<lambda>s. [s])
     (map (\<lambda>w. \<lparr>orth = w, pos = (if w = ''eat'' then ''VERB'' else ''NOUN'')\<rparr>))
     (\<lambda>toks labels. (map orth toks, labels)) [[''you'', ''eat'']]
   = ([([''you'', ''eat''], [0, 1])], None)"
proof -
  let ?sd = "map (\<lambda>w. \<lparr>orth = w, pos = (if w = ''eat'' then ''VERB'' else ''NOUN'')\<rparr>)"
  let ?t2i = "\<lambda>(toks :: token list) (labels :: int list). (map orth toks, labels)"
  have g: "gen_instances_from_segment ?sd ?t2i ''you eat'' = ([([''you'', ''eat''], [0, 1])], None)"
    by (simp add: gen_instances_from_segment_def str_split_you_eat enumerate_eq_zip upt_rec)
  have j: "join '' '' [''you'', ''eat''] = ''you eat''" by simp
  note t = gen_instances_in_segment_order [of "\<lambda>s. [s]" ?sd ?t2i "[[''you'', ''eat'']]"]
  have "\<forall>u \<in> set [[''you'', ''eat'']]. \<forall>seg \<in> set ((\<lambda>s. [s]) (join '' '' u)).
          snd (gen_instances_from_segment ?sd ?t2i seg) = None"
    by (simp add: g)
  with t show ?thesis by (simp add: g)
qed

section \<open>The script on a corpus of fewer than \<open>BATCH_SIZE\<close> utterances\<close>

text \<open>
  The progress bar is made for \<open>len(utterances) // BATCH_SIZE\<close> iterations, but the loop
  runs once for every batch of instances and at least once. For a corpus of at least
  \<open>BATCH_SIZE\<close> utterances the script writes every collected line to the file
  (\<open>main_large_corpus\<close>); for a smaller corpus it raises before the file is opened
  (\<open>main_small_corpus\<close>). The two theorems below run the script on such a corpus, with
  a segmentation model that keeps the utterance as one segment and a tagger for which
  \<open>eat\<close> is a verb.
\<close>

lemma gen_instances_you_eat:
  "gen_instances (\<lambda>s. [s])
     (map (\<lambda>w. \<lparr>orth = w, pos = (if w = ''eat'' then ''VERB'' else ''NOUN'')\<rparr>))
     (\<lambda>toks labels. (map orth toks, labels)) [[''you'', ''eat'']]
   = ([([''you'', ''eat''], [0, 1])], None)"
  by (simp add: gen_instances_from_segment_def str_split_you_eat enumerate_eq_zip upt_rec)

lemma str_split_eat: "str_split ''eat'' = [''eat'']"
  by (simp add: str_split_def isspace_def)

lemma gen_instances_you_eat_eat:
  "gen_instances (\<lambda>s. [s])
     (map (\<lambda>w. \<lparr>orth = w, pos = (if w = ''eat'' then ''VERB'' else ''NOUN'')\<rparr>))
     (\<lambda>toks labels. (map orth toks, labels)) [[''you'', ''eat''], [''eat'']]
   = ([([''you'', ''eat''], [0, 1]), ([''eat''], [1])], None)"
  by (simp add: gen_instances_from_segment_def str_split_you_eat str_split_eat enumerate_eq_zip upt_rec)

lemma srl_line_you_eat:
  "srl_line \<lparr>tags = [''B-ARG0'', ''B-V''], words = [''you'', ''eat'']\<rparr> = ''1 you eat ||| B-ARG0 B-V''"
  by (simp add: srl_line_def first_occurrence_def str_nat.simps digit_def)

text \<open>
  C1. The specification states that for every prediction with \<open>B-V\<close> exactly one line
  \<open><verb_index> <words> ||| <tags>\<close> is collected and that every collected line is written
  to the corpus file followed by a newline. On the corpus of the single utterance
  \<open>you eat\<close> the generator yields one instance, the loop collects the line
  \<open>1 you eat ||| B-ARG0 B-V\<close> for its prediction, and then \<open>progress_bar.update()\<close> raises
  \<open>ZeroDivisionError\<close>: the script ends with this exception and the collected line is
  never written.
\<close>

theorem script_one_utterance_collects_line_then_raises:
  "gen_instances (\<lambda>s. [s])
     (map (\<lambda>w. \<lparr>orth = w, pos = (if w = ''eat'' then ''VERB'' else ''NOUN'')\<rparr>))
     (\<lambda>toks labels. (map orth toks, labels)) [[''you'', ''eat'']]
     = ([([''you'', ''eat''], [0, 1])], None) \<and>
   for_res (map (\<lambda>inst. \<lparr>tags = [''B-ARG0'', ''B-V''], words = fst inst\<rparr>) [([''you'', ''eat''], [0, 1::int])])
       \<lparr>progress_bar = ProgBar (length [[''you'', ''eat'']] div BATCH_SIZE),
        num_no_verb = 0, lines = [], stdin = []\<rparr>
     = Inr \<lparr>progress_bar = ProgBar (length [[''you'', ''eat'']] div BATCH_SIZE),
            num_no_verb = 0, lines = [''1 you eat ||| B-ARG0 B-V''], stdin = []\<rparr> \<and>
   progress_update (ProgBar (length [[''you'', ''eat'']] div BATCH_SIZE)) = Inl ZeroDivisionError \<and>
   script (\<lambda>s. [s])
     (map (\<lambda>w. \<lparr>orth = w, pos = (if w = ''eat'' then ''VERB'' else ''NOUN'')\<rparr>))
     (\<lambda>toks labels. (map orth toks, labels))
     (map (\<lambda>inst. \<lparr>tags = [''B-ARG0'', ''B-V''], words = fst inst\<rparr>))
     [[''you'', ''eat'']] []
     = Inl ZeroDivisionError"
proof (intro conjI)
  let ?fwd = "map (\<lambda>inst :: string list \<times> int list. \<lparr>tags = [''B-ARG0'', ''B-V''], words = fst inst\<rparr>)"
  show "gen_instances (\<lambda>s. [s])
     (map (\<lambda>w. \<lparr>orth = w, pos = (if w = ''eat'' then ''VERB'' else ''NOUN'')\<rparr>))
     (\<lambda>toks labels. (map orth toks, labels)) [[''you'', ''eat'']]
     = ([([''you'', ''eat''], [0, 1])], None)"
    by (rule gen_instances_you_eat)
  show "for_res (?fwd [([''you'', ''eat''], [0, 1])])
       \<lparr>progress_bar = ProgBar (length [[''you'', ''eat'']] div BATCH_SIZE),
        num_no_verb = 0, lines = [], stdin = []\<rparr>
     = Inr \<lparr>progress_bar = ProgBar (length [[''you'', ''eat'']] div BATCH_SIZE),
            num_no_verb = 0, lines = [''1 you eat ||| B-ARG0 B-V''], stdin = []\<rparr>"
    by (simp add: for_res_result has_verb_def srl_line_you_eat)
  show "progress_update (ProgBar (length [[''you'', ''eat'']] div BATCH_SIZE)) = Inl ZeroDivisionError"
    by (simp add: progress_update_def ProgBar_def BATCH_SIZE_def)
  have "length [[''you'', ''eat'']] < BATCH_SIZE" by (simp add: BATCH_SIZE_def)
  then have "main ?fwd [[''you'', ''eat'']] ([([''you'', ''eat''], [0, 1])], None) [] = Inl ZeroDivisionError"
    by (rule main_small_corpus)
  then show "script (\<lambda>s. [s])
     (map (\<lambda>w. \<lparr>orth = w, pos = (if w = ''eat'' then ''VERB'' else ''NOUN'')\<rparr>))
     (\<lambda>toks labels. (map orth toks, labels)) ?fwd [[''you'', ''eat'']] []
     = Inl ZeroDivisionError"
    unfolding script_def gen_instances_you_eat .
qed

text \<open>
  C7. The specification states that a prediction without \<open>B-V\<close> adds no line and adds one to the
  counter, and that the number of lines written to the file is the number of predictions
  with \<open>B-V\<close>. On the corpus of the two utterances \<open>you eat\<close> and \<open>eat\<close>, with a
  predictor that finds \<open>B-V\<close> in the first only, the loop counts one skipped prediction
  and collects one line, and then \<open>progress_bar.update()\<close> raises \<open>ZeroDivisionError\<close>: there
  is one prediction with \<open>B-V\<close> and no line is written.
\<close>

theorem script_two_utterances_writes_no_line:
  "map (\<lambda>inst. \<lparr>tags = (if length (fst inst) = 2 then [''B-ARG0'', ''B-V''] else [''O'']),
                 words = fst inst\<rparr>)
     (fst (gen_instances (\<lambda>s. [s])
        (map (\<lambda>w. \<lparr>orth = w, pos = (if w = ''eat'' then ''VERB'' else ''NOUN'')\<rparr>))
        (\<lambda>toks labels. (map orth toks, labels)) [[''you'', ''eat''], [''eat'']]))
     = [\<lparr>tags = [''B-ARG0'', ''B-V''], words = [''you'', ''eat'']\<rparr>,
        \<lparr>tags = [''O''], words = [''eat'']\<rparr>] \<and>
   for_res [\<lparr>tags = [''B-ARG0'', ''B-V''], words = [''you'', ''eat'']\<rparr>,
            \<lparr>tags = [''O''], words = [''eat'']\<rparr>]
       \<lparr>progress_bar = ProgBar (length [[''you'', ''eat''], [''eat'']] div BATCH_SIZE),
        num_no_verb = 0, lines = [], stdin = []\<rparr>
     = Inr \<lparr>progress_bar = ProgBar (length [[''you'', ''eat''], [''eat'']] div BATCH_SIZE),
            num_no_verb = 1, lines = [''1 you eat ||| B-ARG0 B-V''], stdin = []\<rparr> \<and>
   script (\<lambda>s. [s])
     (map (\<lambda>w. \<lparr>orth = w, pos = (if w = ''eat'' then ''VERB'' else ''NOUN'')\<rparr>))
     (\<lambda>toks labels. (map orth toks, labels))
     (map (\<lambda>inst. \<lparr>tags = (if length (fst inst) = 2 then [''B-ARG0'', ''B-V''] else [''O'']),
                    words = fst inst\<rparr>))
     [[''you'', ''eat''], [''eat'']] []
     = Inl ZeroDivisionError"
proof (intro conjI)
  let ?fwd = "map (\<lambda>inst :: string list \<times> int list.
                \<lparr>tags = (if length (fst inst) = 2 then [''B-ARG0'', ''B-V''] else [''O'']),
                 words = fst inst\<rparr>)"
  show "?fwd (fst (gen_instances (\<lambda>s. [s])
        (map (\<lambda>w. \<lparr>orth = w, pos = (if w = ''eat'' then ''VERB'' else ''NOUN'')\<rparr>))
        (\<lambda>toks labels. (map orth toks, labels)) [[''you'', ''eat''], [''eat'']]))
     = [\<lparr>tags = [''B-ARG0'', ''B-V''], words = [''you'', ''eat'']\<rparr>,
        \<lparr>tags = [''O''], words = [''eat'']\<rparr>]"
    unfolding gen_instances_you_eat_eat by simp
  show "for_res [\<lparr>tags = [''B-ARG0'', ''B-V''], words = [''you'', ''eat'']\<rparr>,
            \<lparr>tags = [''O''], words = [''eat'']\<rparr>]
       \<lparr>progress_bar = ProgBar (length [[''you'', ''eat''], [''eat'']] div BATCH_SIZE),
        num_no_verb = 0, lines = [], stdin = []\<rparr>
     = Inr \<lparr>progress_bar = ProgBar (length [[''you'', ''eat''], [''eat'']] div BATCH_SIZE),
            num_no_verb = 1, lines = [''1 you eat ||| B-ARG0 B-V''], stdin = []\<rparr>"
    by (simp add: for_res_result has_verb_def srl_line_you_eat)
  have "length [[''you'', ''eat''], [''eat'']] < BATCH_SIZE" by (simp add: BATCH_SIZE_def)
  then have "main ?fwd [[''you'', ''eat''], [''eat'']]
               ([([''you'', ''eat''], [0, 1]), ([''eat''], [1])], None) [] = Inl ZeroDivisionError"
    by (rule main_small_corpus)
  then show "script (\<lambda>s. [s])
     (map (\<lambda>w. \<lparr>orth = w, pos = (if w = ''eat'' then ''VERB'' else ''NOUN'')\<rparr>))
     (\<lambda>toks labels. (map orth toks, labels)) ?fwd [[''you'', ''eat''], [''eat'']] []
     = Inl ZeroDivisionError"
    unfolding script_def gen_instances_you_eat_eat .
qed

section \<open>Properties of \<open>evaluate_model_on_pp\<close>\<close>

lemma pp_loop_result:
  "\<forall>batch \<in> set (filter (full_size ps) bs). model batch ''loss'' \<noteq> None \<Longrightarrow>
   pp_loop T model ps bs pp_sum num_steps =
     Inr (foldl (iadd T) pp_sum (perplexities T model ps bs),
          num_steps + int (length (perplexities T model ps bs)))"
proof (induction bs arbitrary: pp_sum num_steps)
  case Nil
  show ?case by (simp add: perplexities_def)
next
  case (Cons b bs)
  show ?case
  proof (cases "full_size ps b")
    case True
    with Cons.prems obtain loss where l: "model b ''loss'' = Some loss" by auto
    from Cons.prems have "\<forall>batch \<in> set (filter (full_size ps) bs). model batch ''loss'' \<noteq> None"
      by simp
    from Cons.IH [OF this] True l show ?thesis
      by (simp add: perplexities_def full_size_def)
  next
    case False
    with Cons.prems have "\<forall>batch \<in> set (filter (full_size ps) bs). model batch ''loss'' \<noteq> None"
      by simp
    from Cons.IH [OF this] False show ?thesis
      by (simp add: perplexities_def full_size_def)
  qed
qed

lemma foldl_iadd_Tensor:
  "foldl (iadd T) (Tensor t) pps = Tensor (foldl (tensor_add T) t pps)"
  by (induction pps arbitrary: t) simp_all

lemma foldl_iadd_start:
  "pps \<noteq> [] \<Longrightarrow> foldl (iadd T) (PyInt 0) pps = Tensor (tensor_sum T pps)"
  by (cases pps) (simp_all add: tensor_sum_def foldl_iadd_Tensor)

lemma pp_loop_none_full:
  "filter (full_size ps) bs = [] \<Longrightarrow> pp_loop T model ps bs pp_sum num_steps = Inr (pp_sum, num_steps)"
  by (induction bs arbitrary: pp_sum num_steps) (simp_all add: full_size_def split: if_splits)

lemma pp_loop_steps:
  "pp_loop T model ps bs pp_sum num_steps = Inr (pp_sum', num_steps') \<Longrightarrow>
   num_steps' = num_steps + int (length (filter (full_size ps) bs)) \<and>
   (filter (full_size ps) bs \<noteq> [] \<longrightarrow> (\<exists>t. pp_sum' = Tensor t))"
proof (induction bs arbitrary: pp_sum num_steps)
  case Nil
  then show ?case by simp
next
  case (Cons b bs)
  show ?case
  proof (cases "full_size ps b")
    case False
    with Cons.prems have "pp_loop T model ps bs pp_sum num_steps = Inr (pp_sum', num_steps')"
      by (simp add: full_size_def)
    from Cons.IH [OF this] False show ?thesis by simp
  next
    case True
    with Cons.prems obtain loss where l: "model b ''loss'' = Some loss"
      and r: "pp_loop T model ps bs (iadd T pp_sum (torch_exp T loss)) (num_steps + 1)
                = Inr (pp_sum', num_steps')"
      by (auto simp: full_size_def Let_def split: option.splits)
    obtain t where t: "iadd T pp_sum (torch_exp T loss) = Tensor t"
      by (cases pp_sum) simp_all
    from Cons.IH [OF r] have n: "num_steps' = num_steps + 1 + int (length (filter (full_size ps) bs))"
      and k: "filter (full_size ps) bs \<noteq> [] \<longrightarrow> (\<exists>t. pp_sum' = Tensor t)" by simp_all
    have "\<exists>t. pp_sum' = Tensor t"
    proof (cases "filter (full_size ps) bs = []")
      case True
      then have "pp_loop T model ps bs (iadd T pp_sum (torch_exp T loss)) (num_steps + 1)
                   = Inr (iadd T pp_sum (torch_exp T loss), num_steps + 1)"
        by (rule pp_loop_none_full)
      with r have "pp_sum' = iadd T pp_sum (torch_exp T loss)" by simp
      with t show ?thesis by simp
    next
      case False
      with k show ?thesis by simp
    qed
    with n True show ?thesis by simp
  qed
qed

text \<open>
  C2. \<open>evaluate_model_on_pp\<close> processes exactly the batches of the one generated epoch
  whose \<open>lm_tags\<close> has \<open>batch_size\<close> rows and skips the others. When there is such a
  batch and the model output of each of them has an entry \<open>loss\<close>, the function returns
  the arithmetic mean of \<open>exp(loss)\<close> over the processed batches: their sum, accumulated
  in the order of the epoch, divided by their number, in the arithmetic of tensors.
\<close>

theorem evaluate_model_on_pp_mean:
  assumes "\<forall>batch \<in> set (filter (full_size ps) (bucket_batcher instances 1)).
             model batch ''loss'' \<noteq> None"
    and "filter (full_size ps) (bucket_batcher instances 1) \<noteq> []"
  shows "evaluate_model_on_pp T model ps bucket_batcher instances =
           Inr (Tensor (tensor_mean T
                  (map (\<lambda>batch. torch_exp T (the (model batch ''loss'')))
                     (filter (full_size ps) (bucket_batcher instances 1)))))"
proof -
  let ?pps = "perplexities T model ps (bucket_batcher instances 1)"
  from assms(2) have ne: "?pps \<noteq> []" by (simp add: perplexities_def)
  have "pp_loop T model ps (bucket_batcher instances 1) (PyInt 0) 0 =
          Inr (Tensor (tensor_sum T ?pps), int (length ?pps))"
    using pp_loop_result [of ps "bucket_batcher instances 1" model T "PyInt 0" 0, OF assms(1)]
      foldl_iadd_start [of ?pps T, OF ne]
    by simp
  then have "evaluate_model_on_pp T model ps bucket_batcher instances =
          Inr (Tensor (tensor_mean T ?pps))"
    unfolding evaluate_model_on_pp_def Let_def by (simp add: tensor_mean_def)
  then show ?thesis by (simp add: perplexities_def)
qed

theorem evaluate_model_on_pp_mean_witness:
  "evaluate_model_on_pp
     \<lparr>torch_exp = exp, tensor_add = (+), tensor_radd = (+), tensor_div = (\<lambda>t n. t / of_int n)\<rparr>
     (\<lambda>batch. [''loss'' \<mapsto> of_int (sum_list (concat (lm_tags batch)))])
     \<lparr>batch_size = 2\<rparr>
     (\<lambda>instances num_epochs. concat (replicate num_epochs instances))
     [\<lparr>lm_tags = [[1], [0]]\<rparr>, \<lparr>lm_tags = [[7]]\<rparr>, \<lparr>lm_tags = [[2], [2]]\<rparr>]
   = Inr (Tensor ((exp 1 + exp 4) / 2 :: real))"
proof -
  let ?T = "\<lparr>torch_exp = exp, tensor_add = (+), tensor_radd = (+),
             tensor_div = (\<lambda>(t::real) n. t / of_int n)\<rparr>"
  let ?model = "\<lambda>batch :: lm_batch. [''loss'' \<mapsto> (of_int (sum_list (concat (lm_tags batch))) :: real)]"
  let ?ps = "\<lparr>batch_size = 2\<rparr>"
  let ?bb = "\<lambda>(instances :: lm_batch list) num_epochs. concat (replicate num_epochs instances)"
  let ?insts = "[\<lparr>lm_tags = [[1], [0]]\<rparr>, \<lparr>lm_tags = [[7]]\<rparr>, \<lparr>lm_tags = [[2], [2]]\<rparr>]"
  have f: "filter (full_size ?ps) (?bb ?insts 1) = [\<lparr>lm_tags = [[1], [0]]\<rparr>, \<lparr>lm_tags = [[2], [2]]\<rparr>]"
    by (simp add: full_size_def)
  have h1: "\<forall>batch \<in> set (filter (full_size ?ps) (?bb ?insts 1)). ?model batch ''loss'' \<noteq> None"
    by simp
  have h2: "filter (full_size ?ps) (?bb ?insts 1) \<noteq> []"
    unfolding f by simp
  from evaluate_model_on_pp_mean [of ?ps ?bb ?insts ?model ?T, OF h1 h2]
  show ?thesis
    unfolding f by (simp add: tensor_mean_def tensor_sum_def)
qed

text \<open>
  C8. \<open>evaluate_model_on_pp\<close> ends with the division of the accumulated sum by the number
  of processed batches, which is the number of batches of the epoch whose \<open>lm_tags\<close> has
  \<open>batch_size\<close> rows. When there is no such batch, the sum and the count are still the
  integers 0 and the division raises \<open>ZeroDivisionError\<close>; so the function returns a
  result only if the epoch has at least one batch of full size.
\<close>

theorem evaluate_model_on_pp_division_by_zero:
  "(filter (full_size ps) (bucket_batcher instances 1) = [] \<longrightarrow>
      pp_loop T model ps (bucket_batcher instances 1) (PyInt 0) 0 = Inr (PyInt 0, 0) \<and>
      evaluate_model_on_pp T model ps bucket_batcher instances = Inl ZeroDivisionError) \<and>
   (\<forall>pp_sum num_steps.
      pp_loop T model ps (bucket_batcher instances 1) (PyInt 0) 0 = Inr (pp_sum, num_steps) \<longrightarrow>
      num_steps = int (length (filter (full_size ps) (bucket_batcher instances 1))) \<and>
      evaluate_model_on_pp T model ps bucket_batcher instances = truediv T pp_sum num_steps) \<and>
   (\<forall>r. evaluate_model_on_pp T model ps bucket_batcher instances = Inr r \<longrightarrow>
      (\<exists>batch \<in> set (bucket_batcher instances 1).
         int (length (lm_tags batch)) = batch_size ps))"
proof (intro conjI impI allI)
  let ?bs = "bucket_batcher instances 1"
  {
    assume e: "filter (full_size ps) ?bs = []"
    show l: "pp_loop T model ps ?bs (PyInt 0) 0 = Inr (PyInt 0, 0)"
      using e by (rule pp_loop_none_full)
    show "evaluate_model_on_pp T model ps bucket_batcher instances = Inl ZeroDivisionError"
      unfolding evaluate_model_on_pp_def Let_def l by simp
  }
  {
    fix pp_sum num_steps
    assume l: "pp_loop T model ps ?bs (PyInt 0) 0 = Inr (pp_sum, num_steps)"
    from pp_loop_steps [OF l]
    show "num_steps = int (length (filter (full_size ps) ?bs))" by simp
    show "evaluate_model_on_pp T model ps bucket_batcher instances = truediv T pp_sum num_steps"
      unfolding evaluate_model_on_pp_def Let_def l by simp
  }
  {
    fix r
    assume r: "evaluate_model_on_pp T model ps bucket_batcher instances = Inr r"
    have "filter (full_size ps) ?bs \<noteq> []"
    proof
      assume "filter (full_size ps) ?bs = []"
      then have "pp_loop T model ps ?bs (PyInt 0) 0 = Inr (PyInt 0, 0)"
        by (rule pp_loop_none_full)
      with r show False unfolding evaluate_model_on_pp_def Let_def by simp
    qed
    then obtain b where "b \<in> set ?bs" and "full_size ps b"
      by (auto simp: filter_empty_conv)
    then show "\<exists>batch \<in> set ?bs. int (length (lm_tags batch)) = batch_size ps"
      by (auto simp: full_size_def)
  }
qed

theorem evaluate_model_on_pp_division_by_zero_witness:
  "evaluate_model_on_pp
     \<lparr>torch_exp = exp, tensor_add = (+), tensor_radd = (+), tensor_div = (\<lambda>t n. t / of_int n)\<rparr>
     (\<lambda>batch. [''loss'' \<mapsto> of_int (sum_list (concat (lm_tags batch)))])
     \<lparr>batch_size = 2\<rparr>
     (\<lambda>instances num_epochs. concat (replicate num_epochs instances))
     [\<lparr>lm_tags = [[7]]\<rparr>]
   = (Inl ZeroDivisionError :: error + real number) \<and>
   evaluate_model_on_pp
     \<lparr>torch_exp = exp, tensor_add = (+), tensor_radd = (+), tensor_div = (\<lambda>t n. t / of_int n)\<rparr>
     (\<lambda>batch. [''loss'' \<mapsto> of_int (sum_list (concat (lm_tags batch)))])
     \<lparr>batch_size = 2\<rparr>
     (\<lambda>instances num_epochs. concat (replicate num_epochs instances))
     [\<lparr>lm_tags = [[7]]\<rparr>, \<lparr>lm_tags = [[2], [2]]\<rparr>]
   = Inr (Tensor (exp 4 / 1 :: real)) \<and>
   (\<exists>batch \<in> set [\<lparr>lm_tags = [[7]]\<rparr>, \<lparr>lm_tags = [[2], [2]]\<rparr>].
      int (length (lm_tags batch)) = batch_size \<lparr>batch_size = 2\<rparr>)"
proof -
  let ?T = "\<lparr>torch_exp = exp, tensor_add = (+), tensor_radd = (+),
             tensor_div = (\<lambda>(t::real) n. t / of_int n)\<rparr>"
  let ?model = "\<lambda>batch :: lm_batch. [''loss'' \<mapsto> (of_int (sum_list (concat (lm_tags batch))) :: real)]"
  let ?ps = "\<lparr>batch_size = 2\<rparr>"
  let ?bb = "\<lambda>(instances :: lm_batch list) num_epochs. concat (replicate num_epochs instances)"
  let ?A = "[\<lparr>lm_tags = [[7]]\<rparr>]"
  let ?B = "[\<lparr>lm_tags = [[7]]\<rparr>, \<lparr>lm_tags = [[2], [2]]\<rparr>]"
  have h: "filter (full_size ?ps) (?bb ?A 1) = []"
    by (simp add: full_size_def)
  note a = evaluate_model_on_pp_division_by_zero [of ?ps ?bb ?A ?T ?model]
  from a h have 1: "evaluate_model_on_pp ?T ?model ?ps ?bb ?A = Inl ZeroDivisionError"
    by (rule conjunct1 [THEN mp, THEN conjunct2])
  have 2: "evaluate_model_on_pp ?T ?model ?ps ?bb ?B = Inr (Tensor (exp 4 / 1))"
    by (simp add: evaluate_model_on_pp_def)
  note b = evaluate_model_on_pp_division_by_zero [of ?ps ?bb ?B ?T ?model]
  from b have "\<forall>r. evaluate_model_on_pp ?T ?model ?ps ?bb ?B = Inr r \<longrightarrow>
      (\<exists>batch \<in> set (?bb ?B 1). int (length (lm_tags batch)) = batch_size ?ps)"
    by (rule conjunct2 [THEN conjunct2])
  then have "evaluate_model_on_pp ?T ?model ?ps ?bb ?B = Inr (Tensor (exp 4 / 1)) \<longrightarrow>
      (\<exists>batch \<in> set (?bb ?B 1). int (length (lm_tags batch)) = batch_size ?ps)"
    by (rule spec)
  from this 2 have "\<exists>batch \<in> set (?bb ?B 1). int (length (lm_tags batch)) = batch_size ?ps"
    by (rule mp)
  then have 3: "\<exists>batch \<in> set ?B. int (length (lm_tags batch)) = batch_size ?ps"
    by simp
  from 1 2 3 show ?thesis by (intro conjI)
qed

section \<open>Properties of \<open>evaluate_model_on_f1\<close>\<close>

lemma f1_loop_result:
  "\<forall>batch \<in> set (filter (full_size_srl ps) bs). decode (model batch) ''tags'' \<noteq> None \<Longrightarrow>
   f1_loop S model decode ps bs m =
     Inr (foldl (\<lambda>m batch. update_with S m batch (the (decode (model batch) ''tags''))) m
            (filter (full_size_srl ps) bs))"
proof (induction bs arbitrary: m)
  case Nil
  show ?case by simp
next
  case (Cons b bs)
  from Cons.prems
  have rest: "\<forall>batch \<in> set (filter (full_size_srl ps) bs). decode (model batch) ''tags'' \<noteq> None"
    by (simp split: if_splits)
  show ?case
  proof (cases "full_size_srl ps b")
    case True
    with Cons.prems obtain predicted where p: "decode (model b) ''tags'' = Some predicted" by auto
    from True p show ?thesis
      by (simp add: Cons.IH [OF rest] full_size_srl_def update_with_def Let_def)
  next
    case False
    then show ?thesis
      by (simp add: Cons.IH [OF rest] full_size_srl_def)
  qed
qed

text \<open>
  C3. \<open>evaluate_model_on_f1\<close> returns the entry \<open>f1-measure-overall\<close> of the measures of a
  span metric that has been updated with exactly the batches of one epoch whose \<open>tags\<close>
  has \<open>batch_size\<close> rows, in order; for each of them the predicted BIO tag sequences,
  taken from \<open>model.decode\<close>, and the gold BIO tag sequences of the metadata are both
  converted to CoNLL format before the metric is updated (\<open>update_with\<close>). This holds
  when the decoded output of every processed batch has an entry \<open>tags\<close> and the measures
  have an entry \<open>f1-measure-overall\<close>.
\<close>

theorem evaluate_model_on_f1_accumulated:
  assumes "\<forall>batch \<in> set (filter (full_size_srl ps) (bucket_batcher instances 1)).
             decode (model batch) ''tags'' \<noteq> None"
    and "get_metric S (accumulated_metric S model decode ps srl_eval_path (bucket_batcher instances 1))
           True ''f1-measure-overall'' = Some f1"
  shows "evaluate_model_on_f1 S model decode ps srl_eval_path bucket_batcher instances = Inr f1"
proof -
  have "f1_loop S model decode ps (bucket_batcher instances 1) (SrlEvalScorer S srl_eval_path [''V''])
          = Inr (accumulated_metric S model decode ps srl_eval_path (bucket_batcher instances 1))"
    unfolding accumulated_metric_def using assms(1) by (rule f1_loop_result)
  then show ?thesis
    unfolding evaluate_model_on_f1_def Let_def using assms(2) by simp
qed

theorem evaluate_model_on_f1_accumulated_witness:
  "evaluate_model_on_f1
     \<lparr>SrlEvalScorer = (\<lambda>path ignore_classes. (0::nat, 0::nat)),
      update = (\<lambda>m verb_indices sentences predicted gold.
                  (fst m + length (filter (\<lambda>(p, g). p = g) (zip predicted gold)),
                   snd m + length gold)),
      get_metric = (\<lambda>m reset. [''f1-measure-overall'' \<mapsto> m]),
      convert_bio_tags_to_conll_format = map (\<lambda>t. drop 2 t)\<rparr>
     (\<lambda>batch. map gold_tags (metadata batch))
     (\<lambda>output_dict. [''tags'' \<mapsto> output_dict])
     \<lparr>batch_size = 1\<rparr>
     ''srl-eval.pl''
     (\<lambda>instances num_epochs. concat (replicate num_epochs instances))
     [\<lparr>batch_tags = [[1, 2]],
       metadata = [\<lparr>verb_index = Some 1, words_md = [''you'', ''eat''],
                    gold_tags = [''B-ARG0'', ''B-V'']\<rparr>]\<rparr>,
      \<lparr>batch_tags = [[1], [2]], metadata = []\<rparr>]
   = Inr (1, 1)"
proof -
  let ?S = "\<lparr>SrlEvalScorer = (\<lambda>(path :: string) (ignore_classes :: string list). (0::nat, 0::nat)),
      update = (\<lambda>m (verb_indices :: int option list) (sentences :: string list list)
                  (predicted :: string list list) (gold :: string list list).
                  (fst m + length (filter (\<lambda>(p, g). p = g) (zip predicted gold)),
                   snd m + length gold)),
      get_metric = (\<lambda>m (reset :: bool). [''f1-measure-overall'' \<mapsto> m]),
      convert_bio_tags_to_conll_format = map (\<lambda>t. drop 2 t)\<rparr>"
  let ?model = "\<lambda>batch :: srl_batch. map gold_tags (metadata batch)"
  let ?decode = "\<lambda>output_dict :: string list list. [''tags'' \<mapsto> output_dict]"
  let ?ps = "\<lparr>batch_size = 1\<rparr>"
  let ?bb = "\<lambda>(instances :: srl_batch list) num_epochs. concat (replicate num_epochs instances)"
  let ?b1 = "\<lparr>batch_tags = [[1, 2]],
       metadata = [\<lparr>verb_index = Some 1, words_md = [''you'', ''eat''],
                    gold_tags = [''B-ARG0'', ''B-V'']\<rparr>]\<rparr>"
  let ?insts = "[?b1, \<lparr>batch_tags = [[1], [2]], metadata = []\<rparr>]"
  have f: "filter (full_size_srl ?ps) (?bb ?insts 1) = [?b1]"
    by (simp add: full_size_srl_def)
  have h1: "\<forall>batch \<in> set (filter (full_size_srl ?ps) (?bb ?insts 1)).
              ?decode (?model batch) ''tags'' \<noteq> None"
    by simp
  have h2: "get_metric ?S (accumulated_metric ?S ?model ?decode ?ps ''srl-eval.pl'' (?bb ?insts 1))
              True ''f1-measure-overall'' = Some (1, 1)"
    unfolding accumulated_metric_def f by (simp add: update_with_def)
  from evaluate_model_on_f1_accumulated
         [of ?ps ?bb ?insts ?decode ?model ?S "''srl-eval.pl''" "(1, 1)", OF h1 h2]
  show ?thesis .
qed

end
